theory Spec2Isabelle
  imports Main
begin

section \<open>Strings\<close>

text \<open>
  JavaScript strings are modelled as \<^typ>\<open>string\<close>.  \<open>startsWith\<close> and \<open>str_includes\<close>
  are \<open>String.prototype.startsWith\<close> and \<open>String.prototype.includes\<close>;
  \<open>toLowerCase\<close> and \<open>toUpperCase\<close> act on the ASCII letters only.
\<close>

fun startsWith :: "string \<Rightarrow> string \<Rightarrow> bool" where
  "startsWith s [] = True"
| "startsWith [] (c # cs) = False"
| "startsWith (x # xs) (c # cs) = (x = c \<and> startsWith xs cs)"

fun str_includes :: "string \<Rightarrow> string \<Rightarrow> bool" where
  "str_includes [] t = (t = [])"
| "str_includes (x # xs) t = (startsWith (x # xs) t \<or> str_includes xs t)"

definition lowerChar :: "char \<Rightarrow> char" where
  "lowerChar c =
     (let n = (of_char c :: nat) in if 65 \<le> n \<and> n \<le> 90 then char_of (n + 32) else c)"

definition upperChar :: "char \<Rightarrow> char" where
  "upperChar c =
     (let n = (of_char c :: nat) in if 97 \<le> n \<and> n \<le> 122 then char_of (n - 32) else c)"

definition toLowerCase :: "string \<Rightarrow> string" where
  "toLowerCase s = map lowerChar s"

text \<open>\<open>s.charAt(0).toUpperCase() + s.slice(1)\<close>\<close>

definition capitalize :: "string \<Rightarrow> string" where
  "capitalize s = (case s of [] \<Rightarrow> [] | c # cs \<Rightarrow> upperChar c # cs)"

text \<open>JavaScript truthiness of a string-or-undefined value.\<close>

definition truthy :: "string option \<Rightarrow> bool" where
  "truthy v = (case v of None \<Rightarrow> False | Some t \<Rightarrow> t \<noteq> [])"

section \<open>Errors and the outside world\<close>

text \<open>
  What a rejected \<open>await\<close> carries.  \<open>HttpStatus n\<close> is an axios error with a response of
  status \<open>n\<close>; \<open>NoResponse c\<close> is an axios error without a response and with
  \<open>error.code = c\<close> (for instance \<open>ECONNABORTED\<close> on a timeout); \<open>TypeError\<close> is a
  runtime error raised while reading the response.
\<close>

datatype error = HttpStatus int | NoResponse string | TypeError

text \<open>\<open>error.response?.status\<close> and \<open>error.code\<close>\<close>

fun status :: "error \<Rightarrow> int option" where
  "status (HttpStatus n) = Some n"
| "status (NoResponse c) = None"
| "status TypeError = None"

fun code :: "error \<Rightarrow> string option" where
  "code (NoResponse c) = Some c"
| "code (HttpStatus n) = None"
| "code TypeError = None"

text \<open>The value of \<open>response.data.livestream\<close> as far as \<open>!== null\<close> can tell.\<close>

datatype jsval = Undefined | Null | Defined

text \<open>
  A fetched HTML page is represented by the answers to the queries the checker puts to
  it: the text of a selection, the \<open>content\<close> attribute of a meta tag (\<open>None\<close> when the
  tag or attribute is missing), and the number of elements a selector matches.
\<close>

record kick_page =
  k_title :: string
  k_og_title :: "string option"
  k_description :: "string option"
  k_live_indicator :: nat
  k_testid_live_indicator :: nat
  k_livestream_container :: nat
  k_body :: string
  k_video :: nat
  k_script :: string

record tiktok_page =
  t_title :: string
  t_og_title :: "string option"
  t_description :: "string option"
  t_ld_json :: nat
  t_ld_json_text :: string
  t_live_room :: nat
  t_e2e_live_room :: nat
  t_live_stream :: nat
  t_testid_live_stream :: nat
  t_body :: string
  t_live_container :: nat
  t_class_live :: nat
  t_class_room :: nat
  t_responseUrl :: "string option"

text \<open>
  The environment of one run of an operation: the configuration read from \<open>CONFIG\<close>, the
  answer of every endpoint to every request, how long a request takes and how late a
  timer fires.  An answer is \<open>Inl\<close> when the awaited promise is rejected.
\<close>

record env =
  YOUTUBE_API_KEY :: "string option"
  TWITCH_CLIENT_ID :: "string option"
  TWITCH_CLIENT_SECRET :: "string option"
  kickApi :: "string \<Rightarrow> error + jsval"
  kickPage :: "string \<Rightarrow> error + kick_page"
  tiktokLive :: "string \<Rightarrow> error + tiktok_page"
  twitchOAuth :: "error + string option"
  twitchStreams :: "string \<Rightarrow> string option \<Rightarrow> error + nat"
  twitchUsers :: "string \<Rightarrow> string option \<Rightarrow> error + nat"
  ytSearchLive :: "string \<Rightarrow> error + nat"
  ytSearchChannel :: "string \<Rightarrow> error + string list"
  ytChannels :: "string \<Rightarrow> error + string list"
  webhook :: "error + unit"
  latency :: nat
  timerLate :: nat

section \<open>The bot's state\<close>

record user =
  platform :: string
  username :: string
  displayName :: string
  addedAt :: int
  resolvedId :: "string option"

text \<open>What \<open>sendLiveNotification\<close> posts to the webhook.\<close>

record notification =
  n_displayName :: string
  n_platform :: string
  n_url :: string

datatype request =
    SetTimeout int
  | KickApiGet string
  | KickPageGet string
  | TikTokGet string
  | TwitchOAuthPost
  | TwitchStreamsGet string "string option"
  | TwitchUsersGet string "string option"
  | YTLiveSearch string
  | YTChannelSearch string
  | YTChannelsGet string

datatype log =
    CheckingAll
  | WentLive string string
  | WentOffline string string
  | ErrorChecking string string error
  | YTNoKey
  | YTCouldNotResolve string
  | YTApiError string error
  | YTResolveError string error
  | TwitchApiError error
  | TwitchTokenError error
  | TikTokResult string bool
  | TikTokNotFound string
  | TikTokBlocked string
  | TikTokTimeout string
  | TikTokApiError string error
  | KickApiFailed string
  | KickAllFailed string error
  | Kick403 string
  | KickScrapeResult string bool
  | KickScrapeFailed string error
  | WebhookError error

text \<open>
  The fields of \<open>StreamMonitorBot\<close> that the monitoring code reads and writes, together
  with the clock read by \<open>Date.now()\<close>, the requests and timers issued so far, the
  notifications posted so far and the console lines written so far (the last three
  newest first).  \<open>monitoredUsers\<close> is a JavaScript \<open>Map\<close>: an association list in
  insertion order.
\<close>

record bot =
  monitoredUsers :: "(string \<times> user) list"
  liveStatus :: "string \<rightharpoonup> bool"
  twitchToken :: "string option"
  lastKickRequest :: int
  clock :: int
  trace :: "request list"
  outbox :: "notification list"
  console :: "log list"

definition kickRequestDelay :: int where
  "kickRequestDelay = 3000"

text \<open>A method that may throw: it returns the error or the value, and the new state.\<close>

type_synonym 'a js = "bot \<Rightarrow> (error + 'a) \<times> bot"

definition andThen :: "'a js \<Rightarrow> ('a \<Rightarrow> 'b js) \<Rightarrow> 'b js" where
  "andThen m f s = (case m s of (Inl err, s') \<Rightarrow> (Inl err, s') | (Inr v, s') \<Rightarrow> f v s')"

definition tryCatch :: "'a js \<Rightarrow> (error \<Rightarrow> 'a js) \<Rightarrow> 'a js" where
  "tryCatch body handler s =
     (case body s of (Inl err, s') \<Rightarrow> handler err s' | (Inr v, s') \<Rightarrow> (Inr v, s'))"

text \<open>
  An awaited network call takes \<open>latency\<close> milliseconds and is recorded; a timer of
  \<open>ms\<close> milliseconds resolves after \<open>ms\<close> milliseconds plus \<open>timerLate\<close>.
\<close>

definition request :: "env \<Rightarrow> request \<Rightarrow> bot \<Rightarrow> bot" where
  "request e r s = s\<lparr>clock := clock s + int (latency e), trace := r # trace s\<rparr>"

definition setTimeout :: "env \<Rightarrow> int \<Rightarrow> bot \<Rightarrow> bot" where
  "setTimeout e ms s =
     s\<lparr>clock := clock s + max ms 0 + int (timerLate e), trace := SetTimeout ms # trace s\<rparr>"

definition consoleLog :: "log \<Rightarrow> bot \<Rightarrow> bot" where
  "consoleLog l s = s\<lparr>console := l # console s\<rparr>"

section \<open>Kick\<close>

text \<open>\<open>tryKickAPI\<close>: \<open>Some b\<close> is the boolean \<open>b\<close>, \<open>None\<close> is \<open>null\<close>.\<close>

definition tryKickAPI :: "env \<Rightarrow> string \<Rightarrow> (bool option) js" where
  "tryKickAPI e uname =
     tryCatch
       (\<lambda>s. case kickApi e uname of
               Inl err \<Rightarrow> (Inl err, request e (KickApiGet uname) s)
             | Inr livestream \<Rightarrow> (Inr (Some (livestream \<noteq> Null)), request e (KickApiGet uname) s))
       (\<lambda>err s. if status err = Some 403 then (Inr None, consoleLog (Kick403 uname) s)
                 else (Inl err, s))"

definition kickLiveIndicators :: "kick_page \<Rightarrow> bool list" where
  "kickLiveIndicators p =
     [ str_includes (toLowerCase (k_title p)) ''live'',
       (case k_og_title p of None \<Rightarrow> False | Some c \<Rightarrow> str_includes (toLowerCase c) ''live''),
       (case k_description p of None \<Rightarrow> False | Some c \<Rightarrow> str_includes (toLowerCase c) ''live''),
       k_live_indicator p > 0,
       k_testid_live_indicator p > 0,
       k_livestream_container p > 0,
       str_includes (toLowerCase (k_body p)) ''is live'',
       str_includes (toLowerCase (k_body p)) ''live now'',
       k_video p > 0 \<and> str_includes (toLowerCase (k_body p)) ''live'',
       str_includes (k_script p) (CHR 0x22 # ''livestream'' @ [CHR 0x22]) \<and> str_includes (k_script p) ''true'' ]"

definition tryKickWebScraping :: "env \<Rightarrow> string \<Rightarrow> bool js" where
  "tryKickWebScraping e uname =
     tryCatch
       (\<lambda>s. case kickPage e uname of
               Inl err \<Rightarrow> (Inl err, request e (KickPageGet uname) s)
             | Inr p \<Rightarrow>
                 (let isLive = list_ex (\<lambda>indicator. indicator) (kickLiveIndicators p)
                  in (Inr isLive,
                      consoleLog (KickScrapeResult uname isLive) (request e (KickPageGet uname) s))))
       (\<lambda>err s. (Inr False, consoleLog (KickScrapeFailed uname err) s))"

text \<open>
  The pacing at the head of \<open>checkKickLive\<close>: wait out the rest of the delay since
  the last Kick request, then record the new dispatch time.
\<close>

definition kickPace :: "env \<Rightarrow> bot \<Rightarrow> bot" where
  "kickPace e s =
     (let now = clock s;
          timeSinceLastRequest = now - lastKickRequest s;
          s1 = (if timeSinceLastRequest < kickRequestDelay
                then setTimeout e (kickRequestDelay - timeSinceLastRequest) s else s)
      in s1\<lparr>lastKickRequest := clock s1\<rparr>)"

definition checkKickLive :: "env \<Rightarrow> string \<Rightarrow> bool js" where
  "checkKickLive e uname s =
     tryCatch
       (andThen (tryKickAPI e uname) (\<lambda>response.
          if response = Some True then (\<lambda>s. (Inr True, s))
          else (\<lambda>s. tryKickWebScraping e uname (consoleLog (KickApiFailed uname) s))))
       (\<lambda>err s. (Inr False, consoleLog (KickAllFailed uname err) s))
       (kickPace e s)"

section \<open>TikTok\<close>

definition tiktokIndicators :: "tiktok_page \<Rightarrow> bool list" where
  "tiktokIndicators p =
     [ str_includes (toLowerCase (t_title p)) ''live'',
       (case t_og_title p of None \<Rightarrow> False | Some c \<Rightarrow> str_includes (toLowerCase c) ''live''),
       (case t_description p of None \<Rightarrow> False | Some c \<Rightarrow> str_includes (toLowerCase c) ''live''),
       t_ld_json p > 0 \<and> str_includes (toLowerCase (t_ld_json_text p)) ''live'',
       t_live_room p > 0,
       t_e2e_live_room p > 0,
       t_live_stream p > 0,
       t_testid_live_stream p > 0,
       str_includes (toLowerCase (t_body p)) ''is live'',
       str_includes (toLowerCase (t_body p)) ''live now'',
       t_live_container p > 0,
       t_class_live p > 0 \<and> t_class_room p > 0 ]"

definition checkTikTokLive :: "env \<Rightarrow> string \<Rightarrow> bool js" where
  "checkTikTokLive e uname =
     tryCatch
       (\<lambda>s. case tiktokLive e uname of
               Inl err \<Rightarrow> (Inl err, request e (TikTokGet uname) s)
             | Inr p \<Rightarrow>
                 (let isLive = list_ex (\<lambda>indicator. indicator) (tiktokIndicators p)
                  in if (case t_responseUrl p of None \<Rightarrow> False
                         | Some url \<Rightarrow> url \<noteq> [] \<and> \<not> str_includes url ''/live'')
                     then (Inr False, request e (TikTokGet uname) s)
                     else (Inr isLive,
                           consoleLog (TikTokResult uname isLive) (request e (TikTokGet uname) s))))
       (\<lambda>err s.
          (Inr False,
           consoleLog
             (if status err = Some 404 then TikTokNotFound uname
              else if status err = Some 403 then TikTokBlocked uname
              else if code err = Some ''ECONNABORTED'' then TikTokTimeout uname
              else TikTokApiError uname err) s))"

section \<open>Twitch\<close>

definition getTwitchToken :: "env \<Rightarrow> unit js" where
  "getTwitchToken e =
     tryCatch
       (\<lambda>s. case twitchOAuth e of
               Inl err \<Rightarrow> (Inl err, request e TwitchOAuthPost s)
             | Inr access_token \<Rightarrow>
                 (Inr (), (request e TwitchOAuthPost s)\<lparr>twitchToken := access_token\<rparr>))
       (\<lambda>err s. (Inr (), consoleLog (TwitchTokenError err) s))"

definition checkTwitchLive :: "env \<Rightarrow> string \<Rightarrow> bool js" where
  "checkTwitchLive e uname =
     tryCatch
       (andThen (\<lambda>s. if \<not> truthy (twitchToken s) then getTwitchToken e s else (Inr (), s))
          (\<lambda>_ s. case twitchStreams e uname (twitchToken s) of
                    Inl err \<Rightarrow> (Inl err, request e (TwitchStreamsGet uname (twitchToken s)) s)
                  | Inr n \<Rightarrow> (Inr (n > 0), request e (TwitchStreamsGet uname (twitchToken s)) s)))
       (\<lambda>err s. (Inr False, consoleLog (TwitchApiError err) s))"

section \<open>YouTube\<close>

text \<open>\<open>resolveYouTubeChannel\<close>: \<open>None\<close> is \<open>null\<close>.\<close>

definition resolveYouTubeChannel :: "env \<Rightarrow> string \<Rightarrow> (string option) js" where
  "resolveYouTubeChannel e input =
     tryCatch
       (\<lambda>s. case ytSearchChannel e input of
               Inl err \<Rightarrow> (Inl err, request e (YTChannelSearch input) s)
             | Inr (c # cs) \<Rightarrow> (Inr (Some c), request e (YTChannelSearch input) s)
             | Inr [] \<Rightarrow>
                 (case ytChannels e input of
                    Inl err \<Rightarrow>
                      (Inl err, request e (YTChannelsGet input) (request e (YTChannelSearch input) s))
                  | Inr (c # cs) \<Rightarrow>
                      (Inr (Some c), request e (YTChannelsGet input) (request e (YTChannelSearch input) s))
                  | Inr [] \<Rightarrow>
                      (Inr None, request e (YTChannelsGet input) (request e (YTChannelSearch input) s))))
       (\<lambda>err s. (Inr None, consoleLog (YTResolveError input err) s))"

text \<open>The channel-scoped live search that ends \<open>checkYouTubeLive\<close>.\<close>

definition youTubeLiveSearch :: "env \<Rightarrow> string \<Rightarrow> bool js" where
  "youTubeLiveSearch e channelId s =
     (case ytSearchLive e channelId of
        Inl err \<Rightarrow> (Inl err, request e (YTLiveSearch channelId) s)
      | Inr n \<Rightarrow> (Inr (n > 0), request e (YTLiveSearch channelId) s))"

definition checkYouTubeLive :: "env \<Rightarrow> string \<Rightarrow> bool js" where
  "checkYouTubeLive e channelInput s =
     (if \<not> truthy (YOUTUBE_API_KEY e) then (Inr False, consoleLog YTNoKey s)
      else
        tryCatch
          (if \<not> startsWith channelInput ''UC''
           then andThen (resolveYouTubeChannel e channelInput) (\<lambda>channelId.
                  case channelId of
                    None \<Rightarrow> (\<lambda>s. (Inr False, consoleLog (YTCouldNotResolve channelInput) s))
                  | Some c \<Rightarrow>
                      if c = [] then (\<lambda>s. (Inr False, consoleLog (YTCouldNotResolve channelInput) s))
                      else youTubeLiveSearch e c)
           else youTubeLiveSearch e channelInput)
          (\<lambda>err s. (Inr False, consoleLog (YTApiError channelInput err) s))
          s)"

section \<open>The monitoring cycle\<close>

definition checkStreamStatus :: "env \<Rightarrow> string \<Rightarrow> string \<Rightarrow> bool js" where
  "checkStreamStatus e pf uname =
     (if pf = ''youtube'' then checkYouTubeLive e uname
      else if pf = ''twitch'' then checkTwitchLive e uname
      else if pf = ''tiktok'' then checkTikTokLive e uname
      else if pf = ''kick'' then checkKickLive e uname
      else (\<lambda>s. (Inr False, s)))"

definition generateYouTubeUrl :: "string \<Rightarrow> string" where
  "generateYouTubeUrl channelInput =
     (if startsWith channelInput ''UC''
      then ''https://youtube.com/channel/'' @ channelInput @ ''/live''
      else ''https://youtube.com/@'' @ channelInput @ ''/live'')"

definition generateLiveUrl :: "string \<Rightarrow> string \<Rightarrow> string" where
  "generateLiveUrl pf uname =
     (if pf = ''youtube'' then generateYouTubeUrl uname
      else if pf = ''twitch'' then ''https://twitch.tv/'' @ uname
      else if pf = ''tiktok'' then ''https://tiktok.com/@'' @ uname @ ''/live''
      else if pf = ''kick'' then ''https://kick.com/'' @ uname
      else ''#'')"

text \<open>
  \<open>sendLiveNotification\<close>.  Building the embed is taken to succeed; the embed is
  represented by the three values its title, description, URL and field are made of.
  The post is recorded in \<open>outbox\<close> whether or not the webhook accepts it.
\<close>

definition liveEmbed :: "user \<Rightarrow> notification" where
  "liveEmbed u =
     \<lparr>n_displayName = displayName u, n_platform = capitalize (platform u),
      n_url = generateLiveUrl (platform u) (username u)\<rparr>"

definition sendLiveNotification :: "env \<Rightarrow> user \<Rightarrow> unit js" where
  "sendLiveNotification e u =
     tryCatch
       (\<lambda>s. case webhook e of
               Inl err \<Rightarrow>
                 (Inl err, s\<lparr>clock := clock s + int (latency e), outbox := liveEmbed u # outbox s\<rparr>)
             | Inr _ \<Rightarrow>
                 (Inr (), s\<lparr>clock := clock s + int (latency e), outbox := liveEmbed u # outbox s\<rparr>))
       (\<lambda>err s. (Inr (), consoleLog (WebhookError err) s))"

text \<open>
  The body of the loop of \<open>checkAllStreams\<close> for one entry of \<open>monitoredUsers\<close>, with its
  \<open>try\<close>/\<open>catch\<close>.  The checker is a parameter, so that the loop can be studied with a
  checker that throws; the bot's own checker is \<open>checkStreamStatus\<close>.
\<close>

type_synonym checker = "string \<Rightarrow> string \<Rightarrow> bool js"

definition checkOne :: "env \<Rightarrow> checker \<Rightarrow> string \<times> user \<Rightarrow> unit js" where
  "checkOne e chk entry =
     (case entry of (key, u) \<Rightarrow>
        tryCatch
          (andThen (chk (platform u) (username u)) (\<lambda>isLive s.
             let wasLive = (liveStatus s key = Some True) in
             if isLive \<and> \<not> wasLive then
               andThen (sendLiveNotification e u)
                 (\<lambda>_ s. (Inr (), s\<lparr>liveStatus := (liveStatus s)(key \<mapsto> True)\<rparr>))
                 (consoleLog (WentLive (displayName u) (platform u)) s)
             else if \<not> isLive \<and> wasLive then
               (Inr (), (consoleLog (WentOffline (displayName u) (platform u)) s)
                           \<lparr>liveStatus := (liveStatus s)(key \<mapsto> False)\<rparr>)
             else (Inr (), s)))
          (\<lambda>err s. (Inr (), consoleLog (ErrorChecking (username u) (platform u) err) s)))"

text \<open>
  A \<open>for ... of\<close> loop: an error that leaves the body ends the loop.  The loop of
  \<open>checkAllStreams\<close> runs over the entries \<open>monitoredUsers\<close> holds when the cycle starts;
  neither the loop body nor the bot's checkers change that map, and a cycle is taken to
  run without a command being handled in between.
\<close>

fun forOf :: "('a \<Rightarrow> unit js) \<Rightarrow> 'a list \<Rightarrow> unit js" where
  "forOf body [] s = (Inr (), s)"
| "forOf body (x # xs) s =
     (case body x s of (Inl err, s') \<Rightarrow> (Inl err, s') | (Inr _, s') \<Rightarrow> forOf body xs s')"

definition checkAllStreamsWith :: "env \<Rightarrow> checker \<Rightarrow> unit js" where
  "checkAllStreamsWith e chk s =
     forOf (checkOne e chk) (monitoredUsers s) (consoleLog CheckingAll s)"

definition checkAllStreams :: "env \<Rightarrow> unit js" where
  "checkAllStreams e = checkAllStreamsWith e (checkStreamStatus e)"

section \<open>Tracking and removing accounts\<close>

text \<open>\<open>Map.prototype.has\<close>, \<open>set\<close> and \<open>delete\<close> on the association list.\<close>

definition mapHas :: "(string \<times> 'v) list \<Rightarrow> string \<Rightarrow> bool" where
  "mapHas m k = (map_of m k \<noteq> None)"

definition mapSet :: "(string \<times> 'v) list \<Rightarrow> string \<Rightarrow> 'v \<Rightarrow> (string \<times> 'v) list" where
  "mapSet m k v =
     (if mapHas m k then map (\<lambda>(k', v'). if k' = k then (k', v) else (k', v')) m
      else m @ [(k, v)])"

definition mapDelete :: "(string \<times> 'v) list \<Rightarrow> string \<Rightarrow> (string \<times> 'v) list" where
  "mapDelete m k = filter (\<lambda>(k', v'). k' \<noteq> k) m"

text \<open>The key \<open>`${platform}:${username}`\<close>.\<close>

definition keyOf :: "string \<Rightarrow> string \<Rightarrow> string" where
  "keyOf pf uname = pf @ '':'' @ uname"

text \<open>
  The result of \<open>validateUser\<close>, without the texts shown to the person who typed the
  command.
\<close>

record validation =
  valid :: bool
  v_resolvedId :: "string option"

definition validateYouTubeUser :: "env \<Rightarrow> string \<Rightarrow> validation js" where
  "validateYouTubeUser e uname s =
     (if \<not> truthy (YOUTUBE_API_KEY e) then (Inr \<lparr>valid = False, v_resolvedId = None\<rparr>, s)
      else
        tryCatch
          (if \<not> startsWith uname ''UC''
           then andThen (resolveYouTubeChannel e uname) (\<lambda>channelId s.
                  if \<not> truthy channelId then (Inr \<lparr>valid = False, v_resolvedId = None\<rparr>, s)
                  else (Inr \<lparr>valid = True, v_resolvedId = channelId\<rparr>, s))
           else (\<lambda>s. (Inr \<lparr>valid = True, v_resolvedId = Some uname\<rparr>, s)))
          (\<lambda>err s. (Inr \<lparr>valid = False, v_resolvedId = None\<rparr>, s))
          s)"

definition validateTwitchUser :: "env \<Rightarrow> string \<Rightarrow> validation js" where
  "validateTwitchUser e uname s =
     (if \<not> truthy (TWITCH_CLIENT_ID e) \<or> \<not> truthy (TWITCH_CLIENT_SECRET e)
      then (Inr \<lparr>valid = False, v_resolvedId = None\<rparr>, s)
      else
        tryCatch
          (andThen (\<lambda>s. if \<not> truthy (twitchToken s) then getTwitchToken e s else (Inr (), s))
             (\<lambda>_ s. case twitchUsers e uname (twitchToken s) of
                       Inl err \<Rightarrow> (Inl err, request e (TwitchUsersGet uname (twitchToken s)) s)
                     | Inr n \<Rightarrow>
                         (Inr \<lparr>valid = (n \<noteq> 0), v_resolvedId = None\<rparr>,
                          request e (TwitchUsersGet uname (twitchToken s)) s)))
          (\<lambda>err s. (Inr \<lparr>valid = False, v_resolvedId = None\<rparr>, s))
          s)"

definition validateUser :: "env \<Rightarrow> string \<Rightarrow> string \<Rightarrow> validation js" where
  "validateUser e pf uname =
     (if pf = ''youtube'' then validateYouTubeUser e uname
      else if pf = ''twitch'' then validateTwitchUser e uname
      else if pf = ''tiktok'' then (\<lambda>s. (Inr \<lparr>valid = True, v_resolvedId = None\<rparr>, s))
      else if pf = ''kick'' then (\<lambda>s. (Inr \<lparr>valid = True, v_resolvedId = None\<rparr>, s))
      else (\<lambda>s. (Inr \<lparr>valid = False, v_resolvedId = None\<rparr>, s)))"

text \<open>
  The two commands, as far as they change the bot: the replies to the interaction and
  the saving of \<open>monitoredUsers\<close> to the data file are left out.  \<open>dn\<close> is the optional
  \<open>display_name\<close>.
\<close>

definition handleTrackCommand :: "env \<Rightarrow> string \<Rightarrow> string \<Rightarrow> string option \<Rightarrow> bot \<Rightarrow> bot" where
  "handleTrackCommand e pf uname dn s =
     (let key = keyOf pf uname in
      if mapHas (monitoredUsers s) key then s
      else
        (case validateUser e pf uname s of
           (Inl err, s') \<Rightarrow> s'
         | (Inr validationResult, s') \<Rightarrow>
             if \<not> valid validationResult then s'
             else s'\<lparr>monitoredUsers :=
                      mapSet (monitoredUsers s') key
                        \<lparr>platform = pf, username = uname,
                         displayName = (case dn of None \<Rightarrow> uname | Some d \<Rightarrow> if d = [] then uname else d),
                         addedAt = clock s',
                         resolvedId = v_resolvedId validationResult\<rparr>\<rparr>))"

definition handleRemoveCommand :: "string \<Rightarrow> string \<Rightarrow> bot \<Rightarrow> bot" where
  "handleRemoveCommand pf uname s =
     (let key = keyOf pf uname in
      if \<not> mapHas (monitoredUsers s) key then s
      else s\<lparr>monitoredUsers := mapDelete (monitoredUsers s) key,
             liveStatus := (liveStatus s)(key := None)\<rparr>)"

text \<open>
  The bot after its constructor and \<open>loadMonitoredUsers\<close>: \<open>entries\<close> is the array the
  data file held (empty when there is no file), \<open>now\<close> the time on the clock.
  \<open>newMap\<close> is \<open>new Map(entries)\<close>, where a later entry replaces an earlier one with
  the same key.
\<close>

definition newMap :: "(string \<times> 'v) list \<Rightarrow> (string \<times> 'v) list" where
  "newMap entries = foldl (\<lambda>m (k, v). mapSet m k v) [] entries"

definition newBot :: "(string \<times> user) list \<Rightarrow> int \<Rightarrow> bot" where
  "newBot entries now =
     \<lparr>monitoredUsers = newMap entries, liveStatus = Map.empty, twitchToken = None,
      lastKickRequest = 0, clock = now, trace = [], outbox = [], console = []\<rparr>"

text \<open>
  What happens to a running bot: a track command, a remove command, or a monitoring
  cycle, each with the environment it meets.  The operations are taken one at a time.
\<close>

datatype command =
    Track env string string "string option"
  | Remove string string
  | Cycle env

fun step :: "command \<Rightarrow> bot \<Rightarrow> bot" where
  "step (Track e pf uname dn) s = handleTrackCommand e pf uname dn s"
| "step (Remove pf uname) s = handleRemoveCommand pf uname s"
| "step (Cycle e) s = snd (checkAllStreams e s)"

definition run :: "command list \<Rightarrow> bot \<Rightarrow> bot" where
  "run cs s = foldl (\<lambda>s c. step c s) s cs"

section \<open>Notions used in the statements\<close>

text \<open>The number of fetches of a Kick channel page issued so far.\<close>

fun isKickPageGet :: "request \<Rightarrow> bool" where
  "isKickPageGet (KickPageGet u) = True"
| "isKickPageGet r = False"

definition kickScrapes :: "bot \<Rightarrow> nat" where
  "kickScrapes s = length (filter isKickPageGet (trace s))"

text \<open>
  A checker keeps to its own business when it changes neither the tracked accounts,
  nor the live states, nor the notifications posted.
\<close>

definition checker_frame :: "checker \<Rightarrow> bool" where
  "checker_frame chk =
     (\<forall>pf uname s. monitoredUsers (snd (chk pf uname s)) = monitoredUsers s
        \<and> liveStatus (snd (chk pf uname s)) = liveStatus s
        \<and> outbox (snd (chk pf uname s)) = outbox s)"

text \<open>The state of a cycle started in \<open>s\<close> once the entries \<open>xs\<close> have had their turn.\<close>

definition cycleUpTo :: "env \<Rightarrow> checker \<Rightarrow> (string \<times> user) list \<Rightarrow> bot \<Rightarrow> bot" where
  "cycleUpTo e chk xs s = snd (forOf (checkOne e chk) xs (consoleLog CheckingAll s))"

text \<open>
  \<open>keeps s s'\<close>: the step from \<open>s\<close> to \<open>s'\<close> changed neither the tracked accounts, nor the
  live states, nor the notifications posted.
\<close>

definition keeps :: "bot \<Rightarrow> bot \<Rightarrow> bool" where
  "keeps s s' = (monitoredUsers s' = monitoredUsers s \<and> liveStatus s' = liveStatus s
                  \<and> outbox s' = outbox s)"

text \<open>Every key with a live state is the key of a tracked account.\<close>

definition tracked :: "bot \<Rightarrow> bool" where
  "tracked s = (dom (liveStatus s) \<subseteq> fst ` set (monitoredUsers s))"

text \<open>Sample data: an environment in which nothing is configured and nobody is live.\<close>

definition blankKickPage :: kick_page where
  "blankKickPage =
     \<lparr>k_title = [], k_og_title = None, k_description = None, k_live_indicator = 0,
      k_testid_live_indicator = 0, k_livestream_container = 0, k_body = [], k_video = 0,
      k_script = []\<rparr>"

definition quietEnv :: env where
  "quietEnv =
     \<lparr>YOUTUBE_API_KEY = None, TWITCH_CLIENT_ID = None, TWITCH_CLIENT_SECRET = None,
      kickApi = (\<lambda>u. Inr Null), kickPage = (\<lambda>u. Inr blankKickPage),
      tiktokLive = (\<lambda>u. Inl (HttpStatus 404)), twitchOAuth = Inl (HttpStatus 400),
      twitchStreams = (\<lambda>u tok. Inr 0), twitchUsers = (\<lambda>u tok. Inr 0),
      ytSearchLive = (\<lambda>c. Inr 0), ytSearchChannel = (\<lambda>q. Inr []), ytChannels = (\<lambda>q. Inr []),
      webhook = Inr (), latency = 0, timerLate = 0\<rparr>"

definition kickOfflineButPageLive :: env where
  "kickOfflineButPageLive =
     quietEnv\<lparr>kickApi := \<lambda>u. Inr Null, kickPage := \<lambda>u. Inr (blankKickPage\<lparr>k_live_indicator := 1\<rparr>)\<rparr>"

definition tiktokBlocked :: env where
  "tiktokBlocked = quietEnv\<lparr>tiktokLive := \<lambda>u. Inl (HttpStatus 403)\<rparr>"

definition twitchRejects :: env where
  "twitchRejects = quietEnv\<lparr>twitchStreams := \<lambda>u tok. Inl (HttpStatus 401)\<rparr>"

definition staleBot :: bot where
  "staleBot = (newBot [] 0)\<lparr>twitchToken := Some ''stale''\<rparr>"

definition ytTrackEnv :: env where
  "ytTrackEnv = quietEnv\<lparr>YOUTUBE_API_KEY := Some ''key'',
      ytSearchChannel := \<lambda>q. Inr [''UCabc'']\<rparr>"

definition ytPollEnv :: env where
  "ytPollEnv = quietEnv\<lparr>YOUTUBE_API_KEY := Some ''key'',
      ytSearchChannel := \<lambda>q. Inr [''UCother''],
      ytSearchLive := \<lambda>c. if c = ''UCabc'' then Inr 1 else Inr 0\<rparr>"

definition ninja :: user where
  "ninja = \<lparr>platform = ''twitch'', username = ''ninja'', displayName = ''ninja'', addedAt = 0,
            resolvedId = None\<rparr>"

definition ninjaLive :: env where
  "ninjaLive = quietEnv\<lparr>twitchOAuth := Inr (Some ''token''), twitchStreams := \<lambda>u tok. Inr 1\<rparr>"

definition ninjaBot :: bot where
  "ninjaBot = newBot [(''twitch:ninja'', ninja)] 0"

text \<open>A checker that throws for the account \<open>a\<close> and reports every other account live.\<close>

definition flakyChecker :: checker where
  "flakyChecker pf uname s = (if uname = ''a'' then (Inl TypeError, s) else (Inr True, s))"

definition kickUser :: "string \<Rightarrow> user" where
  "kickUser uname = \<lparr>platform = ''kick'', username = uname, displayName = uname, addedAt = 0,
            resolvedId = None\<rparr>"

definition twoBot :: bot where
  "twoBot = (newBot [(''kick:a'', kickUser ''a''), (''kick:b'', kickUser ''b'')] 0)
              \<lparr>liveStatus := [''kick:a'' \<mapsto> True]\<rparr>"

section \<open>Unfolding rules\<close>

lemmas js_defs = tryCatch_def andThen_def request_def setTimeout_def consoleLog_def

lemmas kick_defs = checkKickLive_def tryKickAPI_def tryKickWebScraping_def kickPace_def
  kickRequestDelay_def kickScrapes_def

lemmas twitch_defs = checkTwitchLive_def getTwitchToken_def

lemmas yt_defs = checkYouTubeLive_def resolveYouTubeChannel_def youTubeLiveSearch_def
  validateYouTubeUser_def

lemmas cycle_defs = checkAllStreams_def checkAllStreamsWith_def checkOne_def checkStreamStatus_def
  sendLiveNotification_def

lemmas cmd_defs = handleTrackCommand_def handleRemoveCommand_def validateUser_def keyOf_def
  mapHas_def mapSet_def mapDelete_def newBot_def newMap_def run_def

section \<open>Properties of the Kick checker\<close>

text \<open>
  C2, at an input where it fails.  The channel-info call succeeds and its \<open>livestream\<close>
  field is \<open>null\<close>, so \<open>tryKickAPI\<close> returns \<open>false\<close>; \<open>checkKickLive\<close> treats that like
  \<open>null\<close>, fetches the channel page although step 1 was not rejected, and returns what
  the page heuristics say, here \<open>true\<close>.
\<close>

theorem checkKickLive_api_says_offline:
  "kickApi kickOfflineButPageLive ''xqc'' = Inr Null
   \<and> fst (tryKickAPI kickOfflineButPageLive ''xqc'' (kickPace kickOfflineButPageLive (newBot [] 5000))) = Inr (Some False)
   \<and> fst (checkKickLive kickOfflineButPageLive ''xqc'' (newBot [] 5000)) = Inr True
   \<and> trace (snd (checkKickLive kickOfflineButPageLive ''xqc'' (newBot [] 5000)))
       = [KickPageGet ''xqc'', KickApiGet ''xqc'']"
  by (simp add: kickOfflineButPageLive_def kick_defs js_defs Let_def newBot_def quietEnv_def blankKickPage_def
          kickLiveIndicators_def toLowerCase_def)

text \<open>
  C3.  When the channel-info call is rejected with status 403, \<open>checkKickLive\<close> is the
  scraping step run once after the failed API step: no page had been fetched before
  it and exactly one has been afterwards, and its outcome is the checker's outcome.
  When the call is rejected with anything else, no page is fetched and the checker
  returns \<open>false\<close> rather than the error.
\<close>

theorem checkKickLive_step1_error:
  assumes "kickApi e u = Inl err"
  shows "if status err = Some 403
         then checkKickLive e u s =
                tryKickWebScraping e u
                  (consoleLog (KickApiFailed u) (snd (tryKickAPI e u (kickPace e s))))
              \<and> kickScrapes (snd (tryKickAPI e u (kickPace e s))) = kickScrapes s
              \<and> kickScrapes (snd (checkKickLive e u s)) = kickScrapes s + 1
         else fst (checkKickLive e u s) = Inr False
              \<and> kickScrapes (snd (checkKickLive e u s)) = kickScrapes s"
  using assms
  by (auto simp: kick_defs js_defs Let_def split: sum.splits)

theorem checkKickLive_step1_error_witness:
  "kickApi (quietEnv\<lparr>kickApi := \<lambda>u. Inl (HttpStatus 403)\<rparr>) ''xqc'' = Inl (HttpStatus 403)
   \<and> kickScrapes (snd (checkKickLive (quietEnv\<lparr>kickApi := \<lambda>u. Inl (HttpStatus 403)\<rparr>) ''xqc''
        (newBot [] 5000))) = 1
   \<and> kickApi (quietEnv\<lparr>kickApi := \<lambda>u. Inl (HttpStatus 500)\<rparr>) ''xqc'' = Inl (HttpStatus 500)
   \<and> fst (checkKickLive (quietEnv\<lparr>kickApi := \<lambda>u. Inl (HttpStatus 500)\<rparr>) ''xqc'' (newBot [] 5000))
       = Inr False
   \<and> kickScrapes (snd (checkKickLive (quietEnv\<lparr>kickApi := \<lambda>u. Inl (HttpStatus 500)\<rparr>) ''xqc''
        (newBot [] 5000))) = 0"
proof -
  have a: "kickApi (quietEnv\<lparr>kickApi := \<lambda>u. Inl (HttpStatus 403)\<rparr>) ''xqc'' = Inl (HttpStatus 403)"
    by simp
  have b: "kickApi (quietEnv\<lparr>kickApi := \<lambda>u. Inl (HttpStatus 500)\<rparr>) ''xqc'' = Inl (HttpStatus 500)"
    by simp
  have s0: "kickScrapes (newBot [] 5000) = 0"
    by (simp add: kickScrapes_def newBot_def)
  have "status (HttpStatus 403) = Some 403" by simp
  with checkKickLive_step1_error [OF a, of "newBot [] 5000"]
  have a3: "kickScrapes (snd (checkKickLive (quietEnv\<lparr>kickApi := \<lambda>u. Inl (HttpStatus 403)\<rparr>) ''xqc''
        (newBot [] 5000))) = kickScrapes (newBot [] 5000) + 1"
    by metis
  have "status (HttpStatus 500) \<noteq> Some 403" by simp
  with checkKickLive_step1_error [OF b, of "newBot [] 5000"]
  have b2: "fst (checkKickLive (quietEnv\<lparr>kickApi := \<lambda>u. Inl (HttpStatus 500)\<rparr>) ''xqc'' (newBot [] 5000))
       = Inr False
   \<and> kickScrapes (snd (checkKickLive (quietEnv\<lparr>kickApi := \<lambda>u. Inl (HttpStatus 500)\<rparr>) ''xqc''
        (newBot [] 5000))) = kickScrapes (newBot [] 5000)"
    by metis
  show ?thesis
    using a b a3 b2 by (simp only: s0) simp
qed



section \<open>Properties of the TikTok checker\<close>

text \<open>
  C8.  \<open>checkTikTokLive\<close> never throws, whatever the username, the state and the
  answer of the network.  When the request is rejected (a network error, a timeout,
  or a response with an error status such as 403 or 404) it returns \<open>false\<close>, and the kind
  of error shows only in the console line it writes: apart from that line the state is
  the one left by the request.
\<close>

theorem checkTikTokLive_swallows_errors:
  assumes "tiktokLive e u = Inl err"
  shows "fst (checkTikTokLive e u s) = Inr False
         \<and> (\<exists>l. snd (checkTikTokLive e u s) = consoleLog l (request e (TikTokGet u) s))
         \<and> fst (checkTikTokLive e' u' s') \<noteq> Inl err'"
  using assms
  by (auto simp: checkTikTokLive_def tryCatch_def Let_def split: sum.splits)

theorem checkTikTokLive_swallows_errors_witness:
  "tiktokLive tiktokBlocked ''khaby.lame'' = Inl (HttpStatus 403)
   \<and> fst (checkTikTokLive tiktokBlocked ''khaby.lame'' (newBot [] 0)) = Inr False
   \<and> console (snd (checkTikTokLive tiktokBlocked ''khaby.lame'' (newBot [] 0)))
       = [TikTokBlocked ''khaby.lame'']"
proof -
  have h: "tiktokLive tiktokBlocked ''khaby.lame'' = Inl (HttpStatus 403)"
    by (simp add: tiktokBlocked_def)
  have c: "console (snd (checkTikTokLive tiktokBlocked ''khaby.lame'' (newBot [] 0)))
       = [TikTokBlocked ''khaby.lame'']"
    by (simp add: checkTikTokLive_def tryCatch_def tiktokBlocked_def consoleLog_def request_def
          newBot_def)
  show ?thesis
    using h c checkTikTokLive_swallows_errors [OF h, of "newBot [] 0"] by blast
qed

section \<open>Properties of the Twitch checker\<close>

text \<open>
  C4 as stated fails.  With a token in the cache and a streams call rejected with
  status 401, the token is still in the cache after \<open>checkTwitchLive\<close>, and the next
  call sends it again without asking for a new one.
\<close>

theorem rejected_token_stays_cached:
  "twitchStreams twitchRejects ''ninja'' (twitchToken staleBot) = Inl (HttpStatus 401)
   \<and> twitchToken (snd (checkTwitchLive twitchRejects ''ninja'' staleBot)) = Some ''stale''
   \<and> trace (snd (checkTwitchLive twitchRejects ''ninja''
               (snd (checkTwitchLive twitchRejects ''ninja'' staleBot))))
      = [TwitchStreamsGet ''ninja'' (Some ''stale''), TwitchStreamsGet ''ninja'' (Some ''stale'')]"
  by (simp add: twitch_defs js_defs twitchRejects_def staleBot_def newBot_def quietEnv_def truthy_def)

text \<open>
  C4, amended.  \<open>checkTwitchLive\<close> never empties the cache.  A token that is present
  (neither \<open>null\<close> nor \<open>undefined\<close> nor the empty string) is kept and sent, and no token
  is requested, whatever the streams call answers; a token is requested, once, only
  when none is present, and a rejected token request leaves the cache as it was.
\<close>

theorem checkTwitchLive_token:
  "twitchToken (snd (checkTwitchLive e u s)) =
     (if truthy (twitchToken s) then twitchToken s
      else case twitchOAuth e of Inl err \<Rightarrow> twitchToken s | Inr access_token \<Rightarrow> access_token)
   \<and> trace (snd (checkTwitchLive e u s)) =
     (if truthy (twitchToken s) then TwitchStreamsGet u (twitchToken s) # trace s
      else TwitchStreamsGet u (twitchToken (snd (checkTwitchLive e u s))) # TwitchOAuthPost # trace s)"
  by (auto simp: twitch_defs js_defs Let_def split: sum.splits)

section \<open>The checkers leave the tracker's state alone\<close>

lemma checkKickLive_keeps: "keeps s (snd (checkKickLive e u s))"
  by (auto simp: keeps_def kick_defs js_defs Let_def split: sum.splits)

lemma checkTikTokLive_keeps: "keeps s (snd (checkTikTokLive e u s))"
  by (auto simp: keeps_def checkTikTokLive_def js_defs Let_def split: sum.splits)

lemma checkTwitchLive_keeps: "keeps s (snd (checkTwitchLive e u s))"
  by (auto simp: keeps_def twitch_defs js_defs Let_def split: sum.splits)

lemma resolveYouTubeChannel_keeps: "keeps s (snd (resolveYouTubeChannel e u s))"
  by (auto simp: keeps_def resolveYouTubeChannel_def js_defs split: sum.splits list.splits)

lemma youTubeLiveSearch_keeps: "keeps s (snd (youTubeLiveSearch e c s))"
  by (auto simp: keeps_def youTubeLiveSearch_def js_defs split: sum.splits)

lemma checkYouTubeLive_keeps: "keeps s (snd (checkYouTubeLive e u s))"
  by (auto simp: keeps_def yt_defs js_defs split: sum.splits list.splits option.splits)

lemma checkStreamStatus_keeps: "keeps s (snd (checkStreamStatus e pf u s))"
  using checkKickLive_keeps checkTikTokLive_keeps checkTwitchLive_keeps checkYouTubeLive_keeps
  by (simp add: checkStreamStatus_def) (simp add: keeps_def)

lemma checkStreamStatus_frame: "checker_frame (checkStreamStatus e)"
  using checkStreamStatus_keeps by (simp add: checker_frame_def keeps_def)

section \<open>Properties of the monitoring cycle\<close>

lemma sendLiveNotification_effect:
  "fst (sendLiveNotification e u s) = Inr ()
   \<and> monitoredUsers (snd (sendLiveNotification e u s)) = monitoredUsers s
   \<and> liveStatus (snd (sendLiveNotification e u s)) = liveStatus s
   \<and> outbox (snd (sendLiveNotification e u s)) = liveEmbed u # outbox s"
  by (simp add: sendLiveNotification_def tryCatch_def consoleLog_def split: sum.splits)

lemma checkOne_effect:
  assumes "chk (platform u) (username u) s = (r, s1)"
  shows "fst (checkOne e chk (key, u) s) = Inr ()"
    and "monitoredUsers (snd (checkOne e chk (key, u) s)) = monitoredUsers s1"
    and "liveStatus (snd (checkOne e chk (key, u) s)) =
           (if r = Inr True \<and> liveStatus s1 key \<noteq> Some True then (liveStatus s1)(key \<mapsto> True)
            else if r = Inr False \<and> liveStatus s1 key = Some True then (liveStatus s1)(key \<mapsto> False)
            else liveStatus s1)"
    and "outbox (snd (checkOne e chk (key, u) s)) =
           (if r = Inr True \<and> liveStatus s1 key \<noteq> Some True then liveEmbed u # outbox s1
            else outbox s1)"
    and "r = Inl err \<Longrightarrow>
           checkOne e chk (key, u) s =
             (Inr (), consoleLog (ErrorChecking (username u) (platform u) err) s1)"
proof -
  let ?s2 = "consoleLog (WentLive (displayName u) (platform u)) s1"
  obtain s3 where n: "sendLiveNotification e u ?s2 = (Inr (), s3)"
    using sendLiveNotification_effect [of e u ?s2]
    by (cases "sendLiveNotification e u ?s2") simp
  have k: "monitoredUsers s3 = monitoredUsers s1" "liveStatus s3 = liveStatus s1"
    "outbox s3 = liveEmbed u # outbox s1"
    using sendLiveNotification_effect [of e u ?s2] n by (simp_all add: consoleLog_def)
  show "fst (checkOne e chk (key, u) s) = Inr ()"
    using assms n by (cases r) (simp_all add: checkOne_def tryCatch_def andThen_def Let_def)
  show "monitoredUsers (snd (checkOne e chk (key, u) s)) = monitoredUsers s1"
    using assms n k
    by (cases r) (simp_all add: checkOne_def tryCatch_def andThen_def Let_def consoleLog_def)
  show "liveStatus (snd (checkOne e chk (key, u) s)) =
           (if r = Inr True \<and> liveStatus s1 key \<noteq> Some True then (liveStatus s1)(key \<mapsto> True)
            else if r = Inr False \<and> liveStatus s1 key = Some True then (liveStatus s1)(key \<mapsto> False)
            else liveStatus s1)"
    using assms n k
    by (cases r) (auto simp add: checkOne_def tryCatch_def andThen_def Let_def consoleLog_def)
  show "outbox (snd (checkOne e chk (key, u) s)) =
           (if r = Inr True \<and> liveStatus s1 key \<noteq> Some True then liveEmbed u # outbox s1
            else outbox s1)"
    using assms n k
    by (cases r) (auto simp add: checkOne_def tryCatch_def andThen_def Let_def consoleLog_def)
  show "r = Inl err \<Longrightarrow>
           checkOne e chk (key, u) s =
             (Inr (), consoleLog (ErrorChecking (username u) (platform u) err) s1)"
    using assms by (simp add: checkOne_def tryCatch_def andThen_def)
qed

lemma checkOne_fst: "fst (checkOne e chk x s) = Inr ()"
proof (cases x)
  case (Pair key u)
  obtain r s1 where "chk (platform u) (username u) s = (r, s1)"
    by (cases "chk (platform u) (username u) s")
  then show ?thesis using Pair checkOne_effect(1) [where chk = chk and u = u and s = s] by simp
qed

lemma forOf_checkOne:
  "forOf (checkOne e chk) xs s = (Inr (), foldl (\<lambda>s x. snd (checkOne e chk x s)) s xs)"
proof (induction xs arbitrary: s)
  case Nil
  show ?case by simp
next
  case (Cons x xs)
  obtain s' where "checkOne e chk x s = (Inr (), s')"
    using checkOne_fst [of e chk x s] by (cases "checkOne e chk x s") simp
  then show ?case using Cons.IH [of s'] by simp
qed

lemma cycleUpTo_foldl:
  "cycleUpTo e chk xs s = foldl (\<lambda>s x. snd (checkOne e chk x s)) (consoleLog CheckingAll s) xs"
  by (simp add: cycleUpTo_def forOf_checkOne)

lemma cycleUpTo_snoc:
  "cycleUpTo e chk (xs @ [x]) s = snd (checkOne e chk x (cycleUpTo e chk xs s))"
  by (simp add: cycleUpTo_foldl)

lemma cycleUpTo_append:
  "cycleUpTo e chk (xs @ ys) s = foldl (\<lambda>s x. snd (checkOne e chk x s)) (cycleUpTo e chk xs s) ys"
  by (simp add: cycleUpTo_foldl)

lemma checkAllStreamsWith_cycleUpTo:
  "checkAllStreamsWith e chk s = (Inr (), cycleUpTo e chk (monitoredUsers s) s)"
  by (simp add: checkAllStreamsWith_def forOf_checkOne cycleUpTo_foldl)

lemma checkOne_frame:
  assumes "checker_frame chk"
  shows "monitoredUsers (snd (checkOne e chk (k, u) s)) = monitoredUsers s"
    and "j \<noteq> k \<Longrightarrow> liveStatus (snd (checkOne e chk (k, u) s)) j = liveStatus s j"
    and "dom (liveStatus (snd (checkOne e chk (k, u) s))) \<subseteq> insert k (dom (liveStatus s))"
proof -
  obtain r s1 where c: "chk (platform u) (username u) s = (r, s1)"
    by (cases "chk (platform u) (username u) s")
  have f: "monitoredUsers s1 = monitoredUsers s" "liveStatus s1 = liveStatus s"
    using assms c by (simp_all add: checker_frame_def) (metis snd_conv)+
  note eff = checkOne_effect(2,3) [where chk = chk and u = u and s = s and e = e and key = k, OF c]
  show "monitoredUsers (snd (checkOne e chk (k, u) s)) = monitoredUsers s"
    using eff(1) f(1) by simp
  show "j \<noteq> k \<Longrightarrow> liveStatus (snd (checkOne e chk (k, u) s)) j = liveStatus s j"
    using eff(2) f(2) by simp
  show "dom (liveStatus (snd (checkOne e chk (k, u) s))) \<subseteq> insert k (dom (liveStatus s))"
    using eff(2) f(2) by (auto split: if_splits)
qed

lemma turns_users:
  "checker_frame chk \<Longrightarrow>
     monitoredUsers (foldl (\<lambda>s x. snd (checkOne e chk x s)) s xs) = monitoredUsers s"
  by (induction xs arbitrary: s) (auto simp: checkOne_frame(1))

lemma turns_other:
  "checker_frame chk \<Longrightarrow> key \<notin> fst ` set xs \<Longrightarrow>
     liveStatus (foldl (\<lambda>s x. snd (checkOne e chk x s)) s xs) key = liveStatus s key"
  by (induction xs arbitrary: s) (auto simp: checkOne_frame(2))

lemma turns_dom:
  "checker_frame chk \<Longrightarrow>
     dom (liveStatus (foldl (\<lambda>s x. snd (checkOne e chk x s)) s xs))
       \<subseteq> dom (liveStatus s) \<union> fst ` set xs"
proof (induction xs arbitrary: s)
  case Nil
  show ?case by simp
next
  case (Cons x xs)
  obtain k u where x: "x = (k, u)" by (cases x)
  have "dom (liveStatus (foldl (\<lambda>s x. snd (checkOne e chk x s)) (snd (checkOne e chk x s)) xs))
          \<subseteq> dom (liveStatus (snd (checkOne e chk x s))) \<union> fst ` set xs"
    using Cons.prems by (rule Cons.IH)
  moreover have "dom (liveStatus (snd (checkOne e chk x s))) \<subseteq> insert k (dom (liveStatus s))"
    using x checkOne_frame(3) [OF Cons.prems] by simp
  ultimately show ?case using x by auto
qed

lemma ninjaBot_simps:
  "monitoredUsers ninjaBot = [(''twitch:ninja'', ninja)]" "liveStatus ninjaBot = Map.empty"
  by (simp_all add: ninjaBot_def newBot_def newMap_def mapSet_def mapHas_def)

lemma twoBot_simps:
  "monitoredUsers twoBot = [(''kick:a'', kickUser ''a''), (''kick:b'', kickUser ''b'')]"
  "liveStatus twoBot = [''kick:a'' \<mapsto> True]"
  "outbox twoBot = []" "console twoBot = []"
  by (simp_all add: twoBot_def newBot_def newMap_def mapSet_def mapHas_def)

lemma flakyChecker_frame: "checker_frame flakyChecker"
  by (simp add: checker_frame_def flakyChecker_def)

text \<open>
  C1.  Take a cycle started in \<open>s\<close> with a checker that leaves the tracker's state alone
  (as \<open>checkStreamStatus\<close> does), and an entry \<open>(key, u)\<close> of \<open>monitoredUsers\<close>, whose keys
  are distinct as the keys of a \<open>Map\<close> are.  The turn of that entry posts one
  notification for \<open>u\<close> if and only if the live state of \<open>key\<close> before the cycle was not
  \<open>true\<close> (it was \<open>false\<close> or absent) and the checker returned \<open>true\<close>; otherwise it posts
  none, in particular none when the state was already \<open>true\<close>.  After the cycle the state
  of \<open>key\<close> is \<open>true\<close> when the checker returned \<open>true\<close>, and the tracked accounts are
  unchanged, so the same holds for the next cycle.
\<close>

theorem live_notification_edge:
  assumes "checker_frame chk"
    and "distinct (map fst (monitoredUsers s))"
    and "monitoredUsers s = xs @ (key, u) # ys"
  shows "outbox (cycleUpTo e chk (xs @ [(key, u)]) s) =
           (if liveStatus s key \<noteq> Some True
               \<and> fst (chk (platform u) (username u) (cycleUpTo e chk xs s)) = Inr True
            then liveEmbed u # outbox (cycleUpTo e chk xs s)
            else outbox (cycleUpTo e chk xs s))
         \<and> liveStatus (snd (checkAllStreamsWith e chk s)) key =
           (if fst (chk (platform u) (username u) (cycleUpTo e chk xs s)) = Inr True then Some True
            else if fst (chk (platform u) (username u) (cycleUpTo e chk xs s)) = Inr False
                    \<and> liveStatus s key = Some True then Some False
            else liveStatus s key)
         \<and> monitoredUsers (snd (checkAllStreamsWith e chk s)) = monitoredUsers s"
proof -
  let ?before = "cycleUpTo e chk xs s"
  let ?after = "cycleUpTo e chk (xs @ [(key, u)]) s"
  obtain r s1 where c: "chk (platform u) (username u) ?before = (r, s1)"
    by (cases "chk (platform u) (username u) ?before")
  have f: "liveStatus s1 = liveStatus ?before" "outbox s1 = outbox ?before"
    using assms(1) c by (simp_all add: checker_frame_def) (metis snd_conv)+
  have nx: "key \<notin> fst ` set xs" and ny: "key \<notin> fst ` set ys"
    using assms(2,3) by auto
  have b: "liveStatus ?before key = liveStatus s key"
    using turns_other [OF assms(1) nx] by (simp add: cycleUpTo_foldl consoleLog_def)
  note eff = checkOne_effect(3,4)
    [where chk = chk and u = u and s = ?before and e = e and key = key, OF c]
  have a: "?after = snd (checkOne e chk (key, u) ?before)"
    by (rule cycleUpTo_snoc)
  have whole: "snd (checkAllStreamsWith e chk s)
                 = foldl (\<lambda>s x. snd (checkOne e chk x s)) ?after ys"
    using assms(3) cycleUpTo_append [of e chk "xs @ [(key, u)]" ys s]
    by (simp add: checkAllStreamsWith_cycleUpTo)
  have fin: "liveStatus (snd (checkAllStreamsWith e chk s)) key = liveStatus ?after key"
    using whole turns_other [OF assms(1) ny] by simp
  have r: "fst (chk (platform u) (username u) ?before) = r" using c by simp
  have 1: "outbox ?after =
           (if liveStatus s key \<noteq> Some True \<and> r = Inr True
            then liveEmbed u # outbox ?before else outbox ?before)"
    using a eff(2) f b by auto
  have 2: "liveStatus ?after key =
           (if r = Inr True then Some True
            else if r = Inr False \<and> liveStatus s key = Some True then Some False
            else liveStatus s key)"
    using a eff(1) f b by auto
  have 3: "monitoredUsers (snd (checkAllStreamsWith e chk s)) = monitoredUsers s"
    using turns_users [OF assms(1)]
    by (simp add: checkAllStreamsWith_cycleUpTo cycleUpTo_foldl consoleLog_def)
  show ?thesis using 1 2 3 fin r by simp
qed

theorem live_notification_edge_witness:
  "checker_frame (checkStreamStatus ninjaLive)
   \<and> distinct (map fst (monitoredUsers ninjaBot))
   \<and> monitoredUsers ninjaBot = [] @ (''twitch:ninja'', ninja) # []
   \<and> outbox (cycleUpTo ninjaLive (checkStreamStatus ninjaLive) ([] @ [(''twitch:ninja'', ninja)]) ninjaBot)
        = [liveEmbed ninja]
   \<and> liveStatus (snd (checkAllStreamsWith ninjaLive (checkStreamStatus ninjaLive) ninjaBot))
        ''twitch:ninja'' = Some True"
proof -
  have h1: "checker_frame (checkStreamStatus ninjaLive)" by (rule checkStreamStatus_frame)
  have h2: "distinct (map fst (monitoredUsers ninjaBot))" by (simp add: ninjaBot_simps)
  have h3: "monitoredUsers ninjaBot = [] @ (''twitch:ninja'', ninja) # []"
    by (simp add: ninjaBot_simps)
  have b: "cycleUpTo ninjaLive (checkStreamStatus ninjaLive) [] ninjaBot = consoleLog CheckingAll ninjaBot"
    by (simp add: cycleUpTo_def)
  have o: "fst (checkStreamStatus ninjaLive (platform ninja) (username ninja)
             (consoleLog CheckingAll ninjaBot)) = Inr True"
    by (simp add: checkStreamStatus_def twitch_defs js_defs ninja_def ninjaLive_def quietEnv_def
          ninjaBot_def newBot_def truthy_def)
  have x: "outbox (consoleLog CheckingAll ninjaBot) = []"
    by (simp add: consoleLog_def ninjaBot_def newBot_def)
  show ?thesis
    using h1 h2 h3 live_notification_edge [OF h1 h2 h3, of ninjaLive]
    by (simp add: b o x ninjaBot_simps)
qed

text \<open>
  C9.  A cycle never ends with an error, whatever the checker does: it is the turn of
  every entry of \<open>monitoredUsers\<close>, one after the other in the order of the map, each
  taken once.  A turn whose checker throws ends normally, with the error written to
  the console, and every other turn ends normally too.
\<close>

theorem cycle_fault_isolation:
  "fst (checkAllStreamsWith e chk s) = Inr ()
   \<and> snd (checkAllStreamsWith e chk s) =
       foldl (\<lambda>s x. snd (checkOne e chk x s)) (consoleLog CheckingAll s) (monitoredUsers s)
   \<and> (case chk (platform u) (username u) s' of
         (Inl err, s'') \<Rightarrow>
           checkOne e chk (key, u) s' =
             (Inr (), consoleLog (ErrorChecking (username u) (platform u) err) s'')
       | (Inr isLive, s'') \<Rightarrow> fst (checkOne e chk (key, u) s') = Inr ())"
proof -
  obtain r s1 where c: "chk (platform u) (username u) s' = (r, s1)"
    by (cases "chk (platform u) (username u) s'")
  note eff = checkOne_effect(1,5)
    [where chk = chk and u = u and s = s' and e = e and key = key, OF c]
  show ?thesis
    using c eff
    by (cases r) (simp_all add: checkAllStreamsWith_cycleUpTo cycleUpTo_foldl)
qed

theorem cycle_fault_isolation_witness:
  "fst (checkAllStreamsWith quietEnv flakyChecker twoBot) = Inr ()
   \<and> console (snd (checkAllStreamsWith quietEnv flakyChecker twoBot))
       = [WentLive ''b'' ''kick'', ErrorChecking ''a'' ''kick'' TypeError, CheckingAll]
   \<and> outbox (snd (checkAllStreamsWith quietEnv flakyChecker twoBot)) = [liveEmbed (kickUser ''b'')]"
proof -
  let ?end = "foldl (\<lambda>s x. snd (checkOne quietEnv flakyChecker x s)) (consoleLog CheckingAll twoBot)
          (monitoredUsers twoBot)"
  have c: "console ?end = [WentLive ''b'' ''kick'', ErrorChecking ''a'' ''kick'' TypeError, CheckingAll]"
    by (simp add: twoBot_simps checkOne_def sendLiveNotification_def js_defs flakyChecker_def
          kickUser_def quietEnv_def)
  have o: "outbox ?end = [liveEmbed (kickUser ''b'')]"
    by (simp add: twoBot_simps checkOne_def sendLiveNotification_def js_defs flakyChecker_def
          kickUser_def quietEnv_def)
  show ?thesis
    using cycle_fault_isolation [of quietEnv flakyChecker twoBot] c o
    by simp
qed

text \<open>
  C10.  If the checker throws at the turn of the entry \<open>(key, u)\<close>, that turn changes no
  live state and posts no notification, and the state of \<open>key\<close> after the cycle is the
  one it had before the cycle: absent stays absent, \<open>true\<close> stays \<open>true\<close>, \<open>false\<close> stays
  \<open>false\<close>.
\<close>

theorem checker_error_leaves_state:
  assumes "checker_frame chk"
    and "distinct (map fst (monitoredUsers s))"
    and "monitoredUsers s = xs @ (key, u) # ys"
    and "fst (chk (platform u) (username u) (cycleUpTo e chk xs s)) = Inl err"
  shows "liveStatus (cycleUpTo e chk (xs @ [(key, u)]) s) = liveStatus (cycleUpTo e chk xs s)
         \<and> outbox (cycleUpTo e chk (xs @ [(key, u)]) s) = outbox (cycleUpTo e chk xs s)
         \<and> liveStatus (snd (checkAllStreamsWith e chk s)) key = liveStatus s key"
proof -
  let ?before = "cycleUpTo e chk xs s"
  let ?after = "cycleUpTo e chk (xs @ [(key, u)]) s"
  obtain s1 where c: "chk (platform u) (username u) ?before = (Inl err, s1)"
    using assms(4) by (cases "chk (platform u) (username u) ?before") simp
  have f: "liveStatus s1 = liveStatus ?before" "outbox s1 = outbox ?before"
    using assms(1) c by (simp_all add: checker_frame_def) (metis snd_conv)+
  have nx: "key \<notin> fst ` set xs" and ny: "key \<notin> fst ` set ys"
    using assms(2,3) by auto
  have b: "liveStatus ?before key = liveStatus s key"
    using turns_other [OF assms(1) nx] by (simp add: cycleUpTo_foldl consoleLog_def)
  note eff = checkOne_effect(3,4)
    [where chk = chk and u = u and s = ?before and e = e and key = key, OF c]
  have a: "?after = snd (checkOne e chk (key, u) ?before)"
    by (rule cycleUpTo_snoc)
  have whole: "snd (checkAllStreamsWith e chk s)
                 = foldl (\<lambda>s x. snd (checkOne e chk x s)) ?after ys"
    using assms(3) cycleUpTo_append [of e chk "xs @ [(key, u)]" ys s]
    by (simp add: checkAllStreamsWith_cycleUpTo)
  have fin: "liveStatus (snd (checkAllStreamsWith e chk s)) key = liveStatus ?after key"
    using whole turns_other [OF assms(1) ny] by simp
  have 1: "liveStatus ?after = liveStatus ?before" using a eff(1) f by simp
  have 2: "outbox ?after = outbox ?before" using a eff(2) f by simp
  show ?thesis using 1 2 fin b by simp
qed

theorem checker_error_leaves_state_witness:
  "checker_frame flakyChecker
   \<and> distinct (map fst (monitoredUsers twoBot))
   \<and> monitoredUsers twoBot = [] @ (''kick:a'', kickUser ''a'') # [(''kick:b'', kickUser ''b'')]
   \<and> fst (flakyChecker (platform (kickUser ''a'')) (username (kickUser ''a''))
             (cycleUpTo quietEnv flakyChecker [] twoBot)) = Inl TypeError
   \<and> liveStatus (snd (checkAllStreamsWith quietEnv flakyChecker twoBot)) ''kick:a'' = Some True
   \<and> outbox (cycleUpTo quietEnv flakyChecker ([] @ [(''kick:a'', kickUser ''a'')]) twoBot) = []"
proof -
  have h1: "checker_frame flakyChecker" by (rule flakyChecker_frame)
  have h2: "distinct (map fst (monitoredUsers twoBot))" by (simp add: twoBot_simps)
  have h3: "monitoredUsers twoBot = [] @ (''kick:a'', kickUser ''a'') # [(''kick:b'', kickUser ''b'')]"
    by (simp add: twoBot_simps)
  have h4: "fst (flakyChecker (platform (kickUser ''a'')) (username (kickUser ''a''))
             (cycleUpTo quietEnv flakyChecker [] twoBot)) = Inl TypeError"
    by (simp add: flakyChecker_def kickUser_def)
  have x: "outbox (cycleUpTo quietEnv flakyChecker [] twoBot) = []"
    by (simp add: cycleUpTo_def consoleLog_def twoBot_simps)
  show ?thesis
    using h1 h2 h3 h4 checker_error_leaves_state [OF h1 h2 h3 h4]
    by (simp add: x twoBot_simps)
qed

section \<open>Properties of tracking and removing\<close>

lemma mapHas_iff: "mapHas m k \<longleftrightarrow> k \<in> fst ` set m"
  by (simp add: mapHas_def map_of_eq_None_iff)

lemma keys_mapSet: "fst ` set (mapSet m k v) = insert k (fst ` set m)"
  by (auto simp: mapSet_def mapHas_iff image_iff split: if_splits) force+

lemma keys_mapDelete: "fst ` set (mapDelete m k) = fst ` set m - {k}"
  by (auto simp: mapDelete_def image_iff)

lemma getTwitchToken_keeps: "keeps s (snd (getTwitchToken e s))"
  by (auto simp: keeps_def getTwitchToken_def js_defs split: sum.splits)

lemma validateTwitchUser_keeps: "keeps s (snd (validateTwitchUser e u s))"
proof -
  obtain r s1 where g: "getTwitchToken e s = (r, s1)" by (cases "getTwitchToken e s")
  then have "keeps s s1" using getTwitchToken_keeps [of s e] by simp
  then show ?thesis
    using g
    by (auto simp: keeps_def validateTwitchUser_def tryCatch_def andThen_def request_def
          split: sum.splits)
qed

lemma validateYouTubeUser_keeps: "keeps s (snd (validateYouTubeUser e u s))"
proof -
  obtain r s1 where g: "resolveYouTubeChannel e u s = (r, s1)"
    by (cases "resolveYouTubeChannel e u s")
  then have "keeps s s1" using resolveYouTubeChannel_keeps [of s e u] by simp
  then show ?thesis
    using g
    by (auto simp: keeps_def validateYouTubeUser_def tryCatch_def andThen_def split: sum.splits)
qed

lemma validateUser_keeps: "keeps s (snd (validateUser e pf u s))"
  using validateTwitchUser_keeps validateYouTubeUser_keeps
  by (simp add: validateUser_def) (simp add: keeps_def)

lemma handleTrackCommand_liveStatus:
  "liveStatus (handleTrackCommand e pf u dn s) = liveStatus s"
  using validateUser_keeps [of s e pf u]
  by (auto simp: handleTrackCommand_def keeps_def Let_def split: prod.splits sum.splits)

lemma handleTrackCommand_keys:
  "fst ` set (monitoredUsers s) \<subseteq> fst ` set (monitoredUsers (handleTrackCommand e pf u dn s))"
  using validateUser_keeps [of s e pf u]
  by (auto simp: handleTrackCommand_def keeps_def Let_def keys_mapSet split: prod.splits sum.splits)

lemma handleRemoveCommand_effect:
  "liveStatus (handleRemoveCommand pf u s) =
     (if mapHas (monitoredUsers s) (keyOf pf u) then (liveStatus s)(keyOf pf u := None)
      else liveStatus s)"
  "fst ` set (monitoredUsers (handleRemoveCommand pf u s)) = fst ` set (monitoredUsers s) - {keyOf pf u}"
  by (auto simp: handleRemoveCommand_def Let_def keys_mapDelete mapHas_iff)

lemma tracked_step: "tracked s \<Longrightarrow> tracked (step c s)"
proof (cases c)
  case (Track e pf u dn)
  assume "tracked s"
  then show ?thesis
    using Track handleTrackCommand_keys [of s e pf u dn]
    by (auto simp: tracked_def handleTrackCommand_liveStatus)
next
  case (Remove pf u)
  assume "tracked s"
  then show ?thesis
    using Remove by (auto simp: tracked_def handleRemoveCommand_effect mapHas_iff split: if_splits)
next
  case (Cycle e)
  assume t: "tracked s"
  have "dom (liveStatus (snd (checkAllStreams e s))) \<subseteq> dom (liveStatus s) \<union> fst ` set (monitoredUsers s)"
    using turns_dom [OF checkStreamStatus_frame, of e e "consoleLog CheckingAll s" "monitoredUsers s"]
    by (simp add: checkAllStreams_def checkAllStreamsWith_cycleUpTo cycleUpTo_foldl consoleLog_def)
  moreover have "monitoredUsers (snd (checkAllStreams e s)) = monitoredUsers s"
    using turns_users [OF checkStreamStatus_frame, of e e "consoleLog CheckingAll s" "monitoredUsers s"]
    by (simp add: checkAllStreams_def checkAllStreamsWith_cycleUpTo cycleUpTo_foldl consoleLog_def)
  ultimately show ?thesis using t Cycle by (auto simp: tracked_def)
qed

lemma tracked_run: "tracked s \<Longrightarrow> tracked (run cs s)"
  unfolding run_def by (induction cs arbitrary: s) (auto simp: tracked_step)

lemma tracked_newBot: "tracked (newBot entries now)"
  by (simp add: tracked_def newBot_def)

text \<open>
  C6.  In every state the bot reaches from its start by track commands, remove
  commands and cycles, each key that has a live state is the key of a tracked account.
  After a remove command the account's key has no live state and is not tracked, and it
  still has no live state when the account is tracked again.
\<close>

theorem remove_clears_liveStatus:
  "dom (liveStatus (run cs (newBot entries now)))
     \<subseteq> fst ` set (monitoredUsers (run cs (newBot entries now)))
   \<and> liveStatus (handleRemoveCommand pf uname (run cs (newBot entries now))) (keyOf pf uname) = None
   \<and> \<not> mapHas (monitoredUsers (handleRemoveCommand pf uname (run cs (newBot entries now))))
         (keyOf pf uname)
   \<and> liveStatus (handleTrackCommand e pf uname dn
         (handleRemoveCommand pf uname (run cs (newBot entries now)))) (keyOf pf uname) = None"
proof -
  let ?s = "run cs (newBot entries now)"
  have t: "tracked ?s" using tracked_newBot by (rule tracked_run)
  have 1: "liveStatus (handleRemoveCommand pf uname ?s) (keyOf pf uname) = None"
    using t by (auto simp: handleRemoveCommand_effect tracked_def mapHas_iff)
  have 2: "\<not> mapHas (monitoredUsers (handleRemoveCommand pf uname ?s)) (keyOf pf uname)"
    by (simp add: mapHas_iff handleRemoveCommand_effect)
  show ?thesis using t 1 2 by (simp add: tracked_def handleTrackCommand_liveStatus)
qed

text \<open>The keys of \<open>monitoredUsers\<close> are distinct in every state the bot reaches.\<close>

lemma distinct_mapSet:
  assumes "distinct (map fst m)"
  shows "distinct (map fst (mapSet m k v))"
proof (cases "mapHas m k")
  case True
  have eq: "map fst (map (\<lambda>(k', v'). if k' = k then (k', v) else (k', v')) m) = map fst m"
    by (induction m) auto
  show ?thesis unfolding mapSet_def using True assms by (simp only: if_True eq)
next
  case False
  then show ?thesis using assms by (simp add: mapSet_def mapHas_iff)
qed

lemma distinct_newMap: "distinct (map fst (newMap entries))"
proof -
  have "distinct (map fst m) \<Longrightarrow> distinct (map fst (foldl (\<lambda>m (k, v). mapSet m k v) m entries))"
    for m :: "(string \<times> 'a) list"
    by (induction entries arbitrary: m) (auto simp: distinct_mapSet)
  then show ?thesis by (simp add: newMap_def)
qed

lemma distinct_step:
  "distinct (map fst (monitoredUsers s)) \<Longrightarrow> distinct (map fst (monitoredUsers (step c s)))"
proof (cases c)
  case (Track e pf u dn)
  assume "distinct (map fst (monitoredUsers s))"
  then show ?thesis
    using Track validateUser_keeps [of s e pf u]
    by (auto simp: handleTrackCommand_def keeps_def Let_def distinct_mapSet
          split: prod.splits sum.splits)
next
  case (Remove pf u)
  assume "distinct (map fst (monitoredUsers s))"
  then show ?thesis
    using Remove by (simp add: handleRemoveCommand_def Let_def mapDelete_def distinct_map_filter)
next
  case (Cycle e)
  assume d: "distinct (map fst (monitoredUsers s))"
  have "monitoredUsers (snd (checkAllStreams e s)) = monitoredUsers s"
    using turns_users [OF checkStreamStatus_frame, of e e "consoleLog CheckingAll s" "monitoredUsers s"]
    by (simp add: checkAllStreams_def checkAllStreamsWith_cycleUpTo cycleUpTo_foldl consoleLog_def)
  then show ?thesis using d Cycle by simp
qed

lemma distinct_run: "distinct (map fst (monitoredUsers (run cs (newBot entries now))))"
proof -
  have "distinct (map fst (monitoredUsers s)) \<Longrightarrow> distinct (map fst (monitoredUsers (run cs s)))"
    for s
    unfolding run_def by (induction cs arbitrary: s) (auto simp: distinct_step)
  then show ?thesis by (simp add: newBot_def distinct_newMap)
qed

text \<open>
  C5, at an input where it fails.  Tracking the YouTube handle \<open>mkbhd\<close> resolves it
  once and stores the channel id \<open>UCabc\<close> in \<open>resolvedId\<close>.  The next cycle passes the
  handle, not \<open>resolvedId\<close>, to the checker, which resolves the handle again and
  searches the channel that resolution now names: the stored \<open>UCabc\<close>, which is live, is
  never asked about, and no notification is posted.
\<close>

theorem poll_ignores_resolvedId:
  "map (\<lambda>(k, u). (k, resolvedId u))
       (monitoredUsers (run [Track ytTrackEnv ''youtube'' ''mkbhd'' None] (newBot [] 0)))
     = [(''youtube:mkbhd'', Some ''UCabc'')]
   \<and> trace (run [Track ytTrackEnv ''youtube'' ''mkbhd'' None] (newBot [] 0))
     = [YTChannelSearch ''mkbhd'']
   \<and> trace (run [Track ytTrackEnv ''youtube'' ''mkbhd'' None, Cycle ytPollEnv] (newBot [] 0))
     = [YTLiveSearch ''UCother'', YTChannelSearch ''mkbhd'', YTChannelSearch ''mkbhd'']
   \<and> outbox (run [Track ytTrackEnv ''youtube'' ''mkbhd'' None, Cycle ytPollEnv] (newBot [] 0)) = []"
  by (simp add: yt_defs cycle_defs cmd_defs js_defs ytTrackEnv_def ytPollEnv_def quietEnv_def truthy_def)

end
